theory Spec2Isabelle
  imports Complex_Main
begin

section \<open>Python values shared by the services\<close>

text \<open>
  A Python \<open>str\<close> is modelled as a \<open>string\<close> whose characters are the code points
  0 to 255, one \<open>char\<close> per Python character, so \<open>length\<close> is Python's \<open>len\<close> on
  such texts. Python floats are modelled by exact rationals.

  An exception is a value. \<open>JSONDecodeError\<close> is kept apart because the analyzer has a
  handler for it alone; \<open>Exception\<close> stands for every other exception class. Both carry
  the message that \<open>str(e)\<close> returns.
\<close>

datatype exn = JSONDecodeError string | Exception string

fun str :: "exn \<Rightarrow> string" where
  "str (JSONDecodeError m) = m"
| "str (Exception m) = m"

text \<open>
  A Python float as a value of its own: a finite number, an infinity, or not a number.
  \<open>json.loads\<close> gives the last three for \<open>Infinity\<close>, \<open>-Infinity\<close> and \<open>NaN\<close>.
\<close>

datatype pyfloat = Finite rat | PosInf | NegInf | NaN

text \<open>
  What \<open>json.loads\<close> returns: \<open>None\<close>, a bool, an int, a float, a str, a list or a
  dict. A dict is the list of its items; \<open>map_of\<close> reads a key.
\<close>

datatype json =
    JNull
  | JBool bool
  | JInt int
  | JFloat pyfloat
  | JString string
  | JArray "json list"
  | JObject "(string \<times> json) list"

text \<open>\<open>d.get(k, dflt)\<close>; a value that is not a dict has no \<open>get\<close>.\<close>

fun dict_get :: "json \<Rightarrow> string \<Rightarrow> json \<Rightarrow> exn + json" where
  "dict_get (JObject items) k dflt =
     Inr (case map_of items k of Some v \<Rightarrow> v | None \<Rightarrow> dflt)"
| "dict_get _ k dflt = Inl (Exception ''AttributeError: no attribute get'')"

subsection \<open>String methods\<close>

text \<open>\<open>str.isspace\<close> on one character: the white space among the code points below 256.\<close>

definition isspace :: "char \<Rightarrow> bool" where
  "isspace c = (of_char c \<in> {9, 10, 11, 12, 13, 28, 29, 30, 31, 32, 133, 160 :: nat})"

text \<open>\<open>s.strip()\<close>: leading white space goes, then trailing white space.\<close>

definition lstrip :: "string \<Rightarrow> string" where
  "lstrip s = dropWhile isspace s"

definition rstrip :: "string \<Rightarrow> string" where
  "rstrip s = rev (dropWhile isspace (rev s))"

definition strip :: "string \<Rightarrow> string" where
  "strip s = rstrip (lstrip s)"

text \<open>\<open>s.lower()\<close>: the upper-case letters A-Z and those of 192-222 (215 apart) move by 32.\<close>

definition lower_char :: "char \<Rightarrow> char" where
  "lower_char c =
     (let n = (of_char c :: nat)
      in if (65 \<le> n \<and> n \<le> 90) \<or> (192 \<le> n \<and> n \<le> 222 \<and> n \<noteq> 215)
         then char_of (n + 32) else c)"

definition lower :: "string \<Rightarrow> string" where
  "lower s = map lower_char s"

text \<open>\<open>s.split()\<close>: the maximal runs of characters that are not white space.\<close>

fun split_acc :: "string \<Rightarrow> string \<Rightarrow> string list" where
  "split_acc [] cur = (if cur = [] then [] else [rev cur])"
| "split_acc (c # cs) cur =
     (if isspace c then (if cur = [] then split_acc cs [] else rev cur # split_acc cs [])
      else split_acc cs (c # cur))"

definition split :: "string \<Rightarrow> string list" where
  "split s = split_acc s []"

text \<open>\<open>s.endswith(suffix)\<close>.\<close>

definition endswith :: "string \<Rightarrow> string \<Rightarrow> bool" where
  "endswith s suffix =
     (length suffix \<le> length s \<and> drop (length s - length suffix) s = suffix)"

text \<open>\<open>sep.join(parts)\<close>, and \<open>"\n".join(lines)\<close>.\<close>

fun join :: "string \<Rightarrow> string list \<Rightarrow> string" where
  "join sep [] = []"
| "join sep [p] = p"
| "join sep (p # ps) = p @ sep @ join sep ps"

definition join_lines :: "string list \<Rightarrow> string" where
  "join_lines ls = join [CHR 0x0A] ls"

text \<open>
  \<open>round(y)\<close>, the integer nearest to \<open>y\<close>, a tie going to the even one, and
  \<open>round(x, ndigits)\<close> for \<open>ndigits \<ge> 0\<close>, the same on the multiples of
  \<open>10 ^ (- ndigits)\<close>.
\<close>

definition round_half_even :: "rat \<Rightarrow> int" where
  "round_half_even y =
     (let f = floor y;
          d = y - of_int f
      in if d < 1 / 2 then f
         else if 1 / 2 < d then f + 1
         else if even f then f else f + 1)"

definition py_round :: "rat \<Rightarrow> nat \<Rightarrow> rat" where
  "py_round x ndigits = of_int (round_half_even (x * 10 ^ ndigits)) / 10 ^ ndigits"

subsection \<open>Numbers\<close>

text \<open>
  \<open>float(n)\<close> for an int: the nearest number of 53 significant bits, a tie going to the
  even one; it raises \<open>OverflowError\<close> when that number is beyond the largest float.
\<close>

fun bit_length :: "nat \<Rightarrow> nat" where
  "bit_length n = (if n = 0 then 0 else Suc (bit_length (n div 2)))"

declare bit_length.simps [simp del]

definition float_of_int :: "int \<Rightarrow> exn + pyfloat" where
  "float_of_int n =
     (if 2 ^ 1024 - 2 ^ 970 \<le> \<bar>n\<bar>
      then Inl (Exception ''int too large to convert to float'')
      else (let e = bit_length (nat \<bar>n\<bar>) - 53
            in Inr (Finite (of_int (round_half_even (of_int n / 2 ^ e)) * 2 ^ e))))"

text \<open>
  \<open>float(v)\<close> for a value that \<open>json.loads\<close> returned. \<open>float_str\<close> is \<open>float\<close> on a
  \<open>str\<close>, Python's own parser of numbers: the float, or \<open>ValueError\<close>. \<open>None\<close>, a
  list and a dict give \<open>TypeError\<close>.
\<close>

fun py_float :: "(string \<Rightarrow> exn + pyfloat) \<Rightarrow> json \<Rightarrow> exn + pyfloat" where
  "py_float float_str (JInt n) = float_of_int n"
| "py_float float_str (JFloat x) = Inr x"
| "py_float float_str (JBool b) = Inr (Finite (if b then 1 else 0))"
| "py_float float_str (JString s) = float_str s"
| "py_float float_str JNull =
     Inl (Exception ''float() argument must be a string or a real number'')"
| "py_float float_str (JArray vs) =
     Inl (Exception ''float() argument must be a string or a real number'')"
| "py_float float_str (JObject members) =
     Inl (Exception ''float() argument must be a string or a real number'')"

text \<open>
  \<open>a < b\<close> on floats: no comparison with \<open>NaN\<close> holds. \<open>min(a, b)\<close> is \<open>b\<close> when
  \<open>b < a\<close> and \<open>a\<close> otherwise; \<open>max(a, b)\<close> is \<open>b\<close> when \<open>a < b\<close> and \<open>a\<close> otherwise.
\<close>

fun float_lt :: "pyfloat \<Rightarrow> pyfloat \<Rightarrow> bool" where
  "float_lt (Finite a) (Finite b) = (a < b)"
| "float_lt (Finite a) PosInf = True"
| "float_lt NegInf (Finite b) = True"
| "float_lt NegInf PosInf = True"
| "float_lt a b = False"

definition py_min :: "pyfloat \<Rightarrow> pyfloat \<Rightarrow> pyfloat" where
  "py_min a b = (if float_lt b a then b else a)"

definition py_max :: "pyfloat \<Rightarrow> pyfloat \<Rightarrow> pyfloat" where
  "py_max a b = (if float_lt a b then b else a)"

section \<open>services/pdf\_parser.py\<close>

text \<open>
  PyMuPDF is a collaborator: \<open>fitz_open\<close> is \<open>fitz.open(stream=pdf_bytes, filetype="pdf")\<close>,
  which raises or gives a document; a document is the list of its pages, and a page is
  what \<open>page.get_text("text")\<close> gives for it, a text or an exception. The uploaded file is
  modelled by its bytes: every function reads it whole and rewinds it.
\<close>

type_synonym bytes = string
type_synonym document = "(exn + string) list"
type_synonym fitz = "bytes \<Rightarrow> exn + document"

text \<open>The page loop of \<open>extract_text_pymupdf\<close>; \<open>text\<close> is the text gathered so far.\<close>

fun page_loop :: "document \<Rightarrow> string \<Rightarrow> exn + string" where
  "page_loop [] text = Inr text"
| "page_loop (page # pages) text =
     (case page of
        Inl e \<Rightarrow> Inl e
      | Inr page_text \<Rightarrow>
          page_loop pages
            (if strip page_text \<noteq> [] then text @ page_text @ [CHR 0x0A, CHR 0x0A] else text))"

definition extract_text_pymupdf :: "fitz \<Rightarrow> bytes \<Rightarrow> string" where
  "extract_text_pymupdf fitz_open pdf_file =
     (case fitz_open pdf_file of
        Inl e \<Rightarrow> []
      | Inr doc \<Rightarrow>
          (case page_loop doc [] of
             Inl e \<Rightarrow> []
           | Inr text \<Rightarrow> strip text))"

record extraction =
  "text" :: string
  method_used :: string
  success :: bool
  error :: "string option"
  page_count :: nat

definition extract_text :: "fitz \<Rightarrow> bytes \<Rightarrow> string \<Rightarrow> extraction" where
  "extract_text fitz_open pdf_file meth =
     (let result = \<lparr>text = [], method_used = ''pymupdf'', success = False,
                     error = None, page_count = 0\<rparr>
      in case fitz_open pdf_file of
           Inl e \<Rightarrow> result\<lparr>error := Some (str e)\<rparr>
         | Inr doc \<Rightarrow>
             (let result = result\<lparr>page_count := length doc\<rparr>;
                  extracted = extract_text_pymupdf fitz_open pdf_file
              in if extracted \<noteq> [] \<and> 10 < length (strip extracted)
                 then result\<lparr>text := extracted, success := True\<rparr>
                 else result\<lparr>error := Some ''No text extracted or text too short''\<rparr>))"

record validation =
  is_valid :: bool
  error :: "string option"
  file_size :: nat
  page_count :: nat

definition validate_pdf :: "fitz \<Rightarrow> bytes \<Rightarrow> validation" where
  "validate_pdf fitz_open pdf_file =
     (let validation = \<lparr>is_valid = False, error = None,
                         file_size = length pdf_file, page_count = 0\<rparr>
      in case fitz_open pdf_file of
           Inl e \<Rightarrow> validation\<lparr>validation.error := Some (''Invalid PDF file: '' @ str e)\<rparr>
         | Inr doc \<Rightarrow> validation\<lparr>validation.page_count := length doc, is_valid := True\<rparr>)"

section \<open>services/resume\_analyzer.py\<close>

subsection \<open>Prompts\<close>

text \<open>
  \<open>setup_prompts\<close> fixes two templates. \<open>match_analysis_prompt_format\<close> and
  \<open>improvement_prompt_format\<close> are their \<open>format\<close> methods: the inputs are put in as
  they are, and the doubled braces of a template are single in the prompt.
\<close>

definition match_analysis_prompt_format :: "string \<Rightarrow> string \<Rightarrow> string" where
  \<open>match_analysis_prompt_format resume_text job_description =
     join_lines
      ['''',
       ''            You are an expert HR professional and resume analyst. Analyze how well this resume matches the job description.'',
       '''',
       ''            RESUME:'',
       ''            ''] @ resume_text @
     join_lines
      ['''',
       '''',
       ''            JOB DESCRIPTION:'',
       ''            ''] @ job_description @
     join_lines
      ['''',
       '''',
       ''            Please provide a detailed analysis in JSON format with the following structure:'',
       ''            {'',
       ''                "overall_match_score": <integer 0-100>,'',
       ''                "strengths": ["strength1", "strength2", ...],'',
       ''                "weaknesses": ["weakness1", "weakness2", ...],'',
       ''                "missing_keywords": ["keyword1", "keyword2", ...],'',
       ''                "recommendations": ["recommendation1", "recommendation2", ...],'',
       ''                "skill_matches": {'',
       ''                    "technical_skills": ["skill1", "skill2", ...],'',
       ''                    "soft_skills": ["skill1", "skill2", ...],'',
       ''                    "missing_skills": ["skill1", "skill2", ...]'',
       ''                },'',
       ''                "experience_analysis": {'',
       ''                    "relevant_experience": "description",'',
       ''                    "experience_gaps": "description",'',
       ''                    "years_match": "assessment"'',
       ''                }'',
       ''            }'',
       '''',
       ''            Focus on:'',
       ''            1. Keyword matching between resume and job description'',
       ''            2. Skills alignment (technical and soft skills)'',
       ''            3. Experience relevance and level'',
       ''            4. Education requirements'',
       ''            5. Specific qualifications mentioned in the job posting'',
       ''            '']\<close>

definition improvement_prompt_format :: "string \<Rightarrow> string \<Rightarrow> string \<Rightarrow> string" where
  \<open>improvement_prompt_format resume_text job_description analysis_json =
     join_lines
      ['''',
       ''            Based on the resume analysis, provide specific, actionable improvement suggestions.'',
       '''',
       ''            RESUME:'',
       ''            ''] @ resume_text @
     join_lines
      ['''',
       '''',
       ''            JOB DESCRIPTION:'',
       ''            ''] @ job_description @
     join_lines
      ['''',
       '''',
       ''            ANALYSIS:'',
       ''            ''] @ analysis_json @
     join_lines
      ['''',
       '''',
       ''            Provide improvement suggestions in JSON format:'',
       ''            {'',
       ''                "immediate_improvements": ['',
       ''                    {'',
       ''                        "section": "section_name",'',
       ''                        "current_issue": "description",'',
       ''                        "suggested_change": "specific_suggestion"'',
       ''                    }'',
       ''                ],'',
       ''                "keyword_optimization": ['',
       ''                    {'',
       ''                        "missing_keyword": "keyword",'',
       ''                        "suggestion": "how_to_incorporate",'',
       ''                        "priority": "high/medium/low"'',
       ''                    }'',
       ''                ],'',
       ''                "formatting_suggestions": ["suggestion1", "suggestion2", ...],'',
       ''                "content_enhancements": ["enhancement1", "enhancement2", ...]'',
       ''            }'',
       ''            '',
       ''            Be specific and actionable. Focus on changes that will improve the match score.'',
       ''            '']\<close>

subsection \<open>The analyzer and its collaborators\<close>

text \<open>
  A \<open>ResumeAnalyzer\<close> with the library calls it makes:
  \<^item> \<open>llm_invoke prompt\<close> is \<open>self.llm.invoke([HumanMessage(content=prompt)]).content\<close>,
    the network call: the reply's text, or the exception it raises;
  \<^item> \<open>sentence_model\<close> is \<open>None\<close> when the embedding model failed to load, else the
    cosine similarity of the two encoded texts, or the exception raised on the way;
  \<^item> \<open>stop_words\<close> is the set built from NLTK's English list;
  \<^item> \<open>word_tokenize\<close> is NLTK's tokenizer, which raises when its data is missing;
  \<^item> \<open>json_loads\<close> and \<open>json_dumps\<close> are \<open>json.loads\<close> and \<open>json.dumps\<close>;
  \<^item> \<open>get_timestamp\<close> is what \<open>datetime.now().isoformat()\<close> reads.
\<close>

record analyzer =
  llm_invoke :: "string \<Rightarrow> exn + string"
  sentence_model :: "(string \<Rightarrow> string \<Rightarrow> exn + rat) option"
  stop_words :: "string set"
  word_tokenize :: "string \<Rightarrow> exn + string list"
  json_loads :: "string \<Rightarrow> exn + json"
  json_dumps :: "json \<Rightarrow> string"
  get_timestamp :: string

subsection \<open>Keyword extraction\<close>

text \<open>The characters that \<open>\w\<close> matches, among the code points below 256.\<close>

definition is_word_char :: "char \<Rightarrow> bool" where
  "is_word_char c =
     (let n = (of_char c :: nat)
      in (48 \<le> n \<and> n \<le> 57) \<or> (65 \<le> n \<and> n \<le> 90) \<or> n = 95 \<or> (97 \<le> n \<and> n \<le> 122)
         \<or> n \<in> {170, 178, 179, 181, 185, 186, 188, 189, 190}
         \<or> (192 \<le> n \<and> n \<le> 214) \<or> (216 \<le> n \<and> n \<le> 246) \<or> 248 \<le> n)"

text \<open>\<open>re.sub(r'[^\w\s]', ' ', s)\<close>.\<close>

definition re_sub_punctuation :: "string \<Rightarrow> string" where
  "re_sub_punctuation s = map (\<lambda>c. if is_word_char c \<or> isspace c then c else CHR '' '') s"

text \<open>
  A \<open>Counter\<close> is the list of its items in the order the keys were first seen.
  \<open>most_common n\<close> sorts the items by falling count, equal counts staying in that order,
  and keeps the first \<open>n\<close>; for \<open>n \<le> 0\<close> it keeps none.
\<close>

fun counter_add :: "'a \<Rightarrow> ('a \<times> nat) list \<Rightarrow> ('a \<times> nat) list" where
  "counter_add w [] = [(w, 1)]"
| "counter_add w ((k, c) # items) =
     (if k = w then (k, Suc c) # items else (k, c) # counter_add w items)"

definition Counter :: "'a list \<Rightarrow> ('a \<times> nat) list" where
  "Counter ws = foldl (\<lambda>items w. counter_add w items) [] ws"

definition most_common :: "('a \<times> nat) list \<Rightarrow> int \<Rightarrow> ('a \<times> nat) list" where
  "most_common items n = take (nat n) (sort_key (\<lambda>item. - int (snd item)) items)"

text \<open>
  \<open>extract_keywords\<close>. A failing tokenizer is replaced by \<open>split\<close>. No other step can
  raise on a \<open>str\<close> and an \<open>int\<close>, so the outer handler, which returns the empty list, is
  never entered here.
\<close>

definition extract_keywords :: "analyzer \<Rightarrow> string \<Rightarrow> int \<Rightarrow> string list" where
  "extract_keywords self raw_text top_n =
     (let cleaned = re_sub_punctuation (lower raw_text);
          tokens = (case word_tokenize self cleaned of
                      Inr ts \<Rightarrow> ts
                    | Inl nltk_error \<Rightarrow> split cleaned);
          keywords = filter (\<lambda>word. word \<notin> stop_words self \<and> 2 < length word) tokens;
          keyword_freq = Counter keywords
      in map fst (most_common keyword_freq top_n))"

subsection \<open>Semantic similarity\<close>

definition calculate_semantic_similarity :: "analyzer \<Rightarrow> string \<Rightarrow> string \<Rightarrow> rat" where
  "calculate_semantic_similarity self resume_text job_description =
     (case sentence_model self of
        None \<Rightarrow> 0
      | Some model \<Rightarrow>
          (case model resume_text job_description of
             Inl e \<Rightarrow> 0
           | Inr similarity \<Rightarrow> similarity))"

subsection \<open>Fallback records\<close>

definition parse_fallback_response :: "string \<Rightarrow> json" where
  "parse_fallback_response response_text =
     JObject
      [(''overall_match_score'', JInt 50),
       (''strengths'', JArray [JString ''Analysis completed'']),
       (''weaknesses'', JArray [JString ''Response parsing issue'']),
       (''missing_keywords'', JArray []),
       (''recommendations'', JArray [JString ''Consider manual review'']),
       (''skill_matches'',
          JObject [(''technical_skills'', JArray []),
                   (''soft_skills'', JArray []),
                   (''missing_skills'', JArray [])]),
       (''experience_analysis'',
          JObject [(''relevant_experience'', JString ''Analysis incomplete''),
                   (''experience_gaps'', JString ''Unknown''),
                   (''years_match'', JString ''Cannot determine'')])]"

definition parse_fallback_suggestions :: "string \<Rightarrow> json" where
  "parse_fallback_suggestions response_text =
     JObject
      [(''immediate_improvements'',
          JArray [JObject [(''section'', JString ''General''),
                           (''current_issue'', JString ''Response parsing issue''),
                           (''suggested_change'', JString ''Manual review recommended'')]]),
       (''keyword_optimization'', JArray []),
       (''formatting_suggestions'', JArray [JString ''Review document formatting'']),
       (''content_enhancements'', JArray [JString ''Consider professional review''])]"

subsection \<open>Analysis\<close>

text \<open>
  The dict that \<open>analyze_resume\<close> returns. \<open>error\<close> is \<open>None\<close> when the dict has no
  \<open>"error"\<close> key; \<open>keyword_analysis\<close> is \<open>None\<close> when it is the empty dict. The two sets
  are the lists made from Python sets, whose order is not fixed.
\<close>

record keyword_report =
  resume_keywords :: "string list"
  job_keywords :: "string list"
  common_keywords :: "string set"
  keyword_match_rate :: rat
  missing_keywords :: "string set"

record analysis =
  error :: "string option"
  ai_analysis :: json
  keyword_analysis :: "keyword_report option"
  semantic_similarity :: rat
  analysis_timestamp :: string

text \<open>
  The parsing step of \<open>analyze_resume\<close>: \<open>json.loads\<close>, with the fallback record when it
  raises \<open>JSONDecodeError\<close>. Any other exception goes on to the handler of
  \<open>analyze_resume\<close>.
\<close>

definition parse_response :: "analyzer \<Rightarrow> string \<Rightarrow> exn + json" where
  "parse_response self content =
     (case json_loads self content of
        Inr parsed \<Rightarrow> Inr parsed
      | Inl (JSONDecodeError m) \<Rightarrow> Inr (parse_fallback_response content)
      | Inl (Exception m) \<Rightarrow> Inl (Exception m))"

text \<open>The keyword analysis of \<open>analyze_resume\<close>: the two keyword lists and their overlap.\<close>

definition keyword_overlap :: "analyzer \<Rightarrow> string \<Rightarrow> string \<Rightarrow> keyword_report" where
  "keyword_overlap self resume_text job_description =
     (let resume_kws = extract_keywords self resume_text 20;
          job_kws = extract_keywords self job_description 20;
          common = set resume_kws \<inter> set job_kws;
          rate = (if job_kws \<noteq> [] then of_nat (card common) / of_nat (length job_kws) else 0)
      in \<lparr>resume_keywords = resume_kws,
          job_keywords = job_kws,
          common_keywords = common,
          keyword_match_rate = py_round (rate * 100) 2,
          missing_keywords = set job_kws - set resume_kws\<rparr>)"

text \<open>The dict of the handler of \<open>analyze_resume\<close>.\<close>

definition error_result :: "analyzer \<Rightarrow> exn \<Rightarrow> analysis" where
  "error_result self e =
     \<lparr>error = Some (str e), ai_analysis = JObject [], keyword_analysis = None,
      semantic_similarity = 0, analysis_timestamp = get_timestamp self\<rparr>"

text \<open>
  \<open>analyze_resume\<close> returns its dict; the second component lists the prompts sent to the
  model, one for each network call issued.
\<close>

definition analyze_resume :: "analyzer \<Rightarrow> string \<Rightarrow> string \<Rightarrow> analysis \<times> string list" where
  "analyze_resume self resume_text job_description =
     (let prompt = match_analysis_prompt_format resume_text job_description
      in case llm_invoke self prompt of
           Inl e \<Rightarrow> (error_result self e, [prompt])
         | Inr content \<Rightarrow>
             (case parse_response self content of
                Inl e \<Rightarrow> (error_result self e, [prompt])
              | Inr parsed \<Rightarrow>
                  (\<lparr>error = None,
                    ai_analysis = parsed,
                    keyword_analysis = Some (keyword_overlap self resume_text job_description),
                    semantic_similarity =
                      py_round (calculate_semantic_similarity self resume_text job_description * 100) 2,
                    analysis_timestamp = get_timestamp self\<rparr>,
                   [prompt])))"

subsection \<open>Improvement suggestions\<close>

definition empty_suggestions :: json where
  "empty_suggestions =
     JObject [(''immediate_improvements'', JArray []),
              (''keyword_optimization'', JArray []),
              (''formatting_suggestions'', JArray []),
              (''content_enhancements'', JArray [])]"

text \<open>
  The body of the \<open>try\<close> of \<open>get_improvement_suggestions\<close>, an exception that leaves it
  being \<open>Inl\<close>, and the function itself, whose handler turns that into the empty record.
\<close>

definition suggestions_body :: "analyzer \<Rightarrow> string \<Rightarrow> exn + json" where
  "suggestions_body self prompt =
     (case llm_invoke self prompt of
        Inl e \<Rightarrow> Inl e
      | Inr content \<Rightarrow>
          (case json_loads self content of
             Inr suggestions \<Rightarrow> Inr suggestions
           | Inl (JSONDecodeError m) \<Rightarrow> Inr (parse_fallback_suggestions content)
           | Inl (Exception m) \<Rightarrow> Inl (Exception m)))"

definition get_improvement_suggestions ::
  "analyzer \<Rightarrow> string \<Rightarrow> string \<Rightarrow> analysis \<Rightarrow> json \<times> string list" where
  "get_improvement_suggestions self resume_text job_description result =
     (let prompt = improvement_prompt_format resume_text job_description
                     (json_dumps self (ai_analysis result))
      in case suggestions_body self prompt of
           Inr suggestions \<Rightarrow> (suggestions, [prompt])
         | Inl e \<Rightarrow> (empty_suggestions, [prompt]))"

section \<open>components/ui\_components.py\<close>

text \<open>
  \<open>display_score_gauge\<close> draws a gauge. Its first statement is
  \<open>score = max(0, min(100, float(score)))\<close>; the model returns the value the gauge
  shows, or the exception that \<open>float\<close> raises on the score.
\<close>

definition display_score_gauge ::
  "(string \<Rightarrow> exn + pyfloat) \<Rightarrow> json \<Rightarrow> string \<Rightarrow> exn + pyfloat" where
  "display_score_gauge float_str score title =
     (case py_float float_str score of
        Inl e \<Rightarrow> Inl e
      | Inr x \<Rightarrow> Inr (py_max (Finite 0) (py_min (Finite 100) x)))"

section \<open>utils/config.py\<close>

text \<open>
  The API key of the process environment, and what \<open>st.secrets.get\<close> gives for it: an
  exception, nothing, or a key (\<open>st\<close> has its \<open>secrets\<close> attribute). A key that is
  \<open>None\<close> or empty counts as absent.
\<close>

record config =
  OPENROUTER_API_KEY :: "string option"
  secrets_get :: "exn + string option"

definition MAX_FILE_SIZE_MB :: nat where
  "MAX_FILE_SIZE_MB = 10"

definition falsy :: "string option \<Rightarrow> bool" where
  "falsy api_key = (api_key = None \<or> api_key = Some [])"

definition get_openrouter_api_key :: "config \<Rightarrow> exn + string" where
  "get_openrouter_api_key cls =
     (let api_key = OPENROUTER_API_KEY cls;
          api_key = (if falsy api_key
                     then (case secrets_get cls of Inr k \<Rightarrow> k | Inl e \<Rightarrow> api_key)
                     else api_key)
      in case api_key of
           Some k \<Rightarrow>
             (if k = [] then Inl (Exception ''OpenRouter API key not found. Please set OPENROUTER_API_KEY environment variable or add it to Streamlit secrets.'')
              else Inr k)
         | None \<Rightarrow> Inl (Exception ''OpenRouter API key not found. Please set OPENROUTER_API_KEY environment variable or add it to Streamlit secrets.''))"

text \<open>\<open>validate_config\<close>: the pair of \<open>valid\<close> and \<open>issues\<close>.\<close>

definition validate_config :: "config \<Rightarrow> bool \<times> string list" where
  "validate_config cls =
     (case get_openrouter_api_key cls of
        Inr k \<Rightarrow> (True, [])
      | Inl e \<Rightarrow> (False, [str e]))"

section \<open>app.py\<close>

text \<open>
  An uploaded file has its \<open>name\<close>, its \<open>size\<close> in bytes and the content that \<open>read\<close>
  gives. The messages of
  \<open>validate_inputs\<close> are the constructors of \<open>input_error\<close>, in the order of the source:
  no file, a name that does not end in \<open>.pdf\<close>, a file above the size limit (with its
  size), and a job description under 50 characters.
\<close>

record uploaded_file =
  upload_name :: string
  upload_size :: nat
  upload_content :: bytes

datatype input_error =
    UploadMissing
  | NotPdf
  | FileTooLarge nat
  | JobDescriptionTooShort

definition validate_inputs :: "uploaded_file option \<Rightarrow> string \<Rightarrow> bool \<times> input_error list" where
  "validate_inputs uploaded job_description =
     (let errors =
            (case uploaded of
               None \<Rightarrow> [UploadMissing]
             | Some f \<Rightarrow>
                 (if \<not> endswith (lower (upload_name f)) ''.pdf'' then [NotPdf] else []) @
                 (if (of_nat MAX_FILE_SIZE_MB :: rat) < of_nat (upload_size f) / (1024 * 1024)
                  then [FileTooLarge (upload_size f)] else []));
          errors = errors @
            (if job_description = [] \<or> length (strip job_description) < 50
             then [JobDescriptionTooShort] else [])
      in (length errors = 0, errors))"

text \<open>
  The environment of a run: the configuration, PyMuPDF, and the constructor of
  \<open>ResumeAnalyzer\<close>, which may raise.
\<close>

record app =
  app_config :: config
  app_fitz_open :: fitz
  ResumeAnalyzer :: "string \<Rightarrow> exn + analyzer"

record file_info =
  page_count :: nat
  file_size :: nat
  method_used :: string

text \<open>
  The dict of \<open>process_resume_analysis\<close>: \<open>Failure\<close> is \<open>success: False\<close> with its error,
  \<open>Success\<close> carries the resume text, the analysis, the suggestions and the file data.
\<close>

datatype results =
    Failure string
  | Success string analysis json file_info

definition show_error :: "string option \<Rightarrow> string" where
  "show_error e = (case e of Some m \<Rightarrow> m | None \<Rightarrow> ''None'')"

text \<open>
  \<open>process_resume_analysis\<close>, with the prompts sent to the model. The status messages it
  writes to the page are left out. An \<open>"error"\<close> key in the analysis ends the run before
  the suggestions are asked for.
\<close>

definition process_resume_analysis :: "app \<Rightarrow> uploaded_file \<Rightarrow> string \<Rightarrow> results \<times> string list" where
  "process_resume_analysis env uploaded job_description =
     (let (valid, issues) = validate_config (app_config env)
      in if \<not> valid
         then (Failure (''Configuration error: '' @ join ''; '' issues), [])
         else
          (let checked = validate_pdf (app_fitz_open env) (upload_content uploaded)
           in if \<not> is_valid checked
              then (Failure (''PDF validation failed: '' @ show_error (validation.error checked)), [])
              else
               (let extraction_result = extract_text (app_fitz_open env) (upload_content uploaded) ''auto''
                in if \<not> success extraction_result
                   then (Failure (''Text extraction failed: '' @
                                  show_error (extraction.error extraction_result)), [])
                   else
                    (let resume_text = text extraction_result
                     in case get_openrouter_api_key (app_config env) of
                          Inl e \<Rightarrow> (Failure (''AI analysis error: '' @ str e), [])
                        | Inr api_key \<Rightarrow>
                            (case ResumeAnalyzer env api_key of
                               Inl e \<Rightarrow> (Failure (''AI analysis error: '' @ str e), [])
                             | Inr analyzer \<Rightarrow>
                                 (let (analysis_result, calls) =
                                        analyze_resume analyzer resume_text job_description
                                  in case analysis.error analysis_result of
                                       Some msg \<Rightarrow> (Failure (''Analysis failed: '' @ msg), calls)
                                     | None \<Rightarrow>
                                         (let (suggestions, more_calls) =
                                                get_improvement_suggestions analyzer resume_text
                                                  job_description analysis_result
                                          in (Success resume_text analysis_result suggestions
                                                \<lparr>page_count = validation.page_count checked,
                                                 file_size = validation.file_size checked,
                                                 method_used = extraction.method_used extraction_result\<rparr>,
                                              calls @ more_calls))))))))"

text \<open>
  What \<open>main\<close> shows: the welcome text while the button is not pressed, the input errors,
  the failure of the analysis, or the results.
\<close>

datatype page =
    Welcome
  | InputErrors "input_error list"
  | AnalysisFailed string
  | Results results

text \<open>
  \<open>main\<close>, from the three inputs of the sidebar, with the prompts sent to the model. With
  no file the validation fails, so the last case is never reached.
\<close>

definition main :: "app \<Rightarrow> uploaded_file option \<Rightarrow> string \<Rightarrow> bool \<Rightarrow> page \<times> string list" where
  "main env uploaded job_description process_button =
     (if \<not> process_button then (Welcome, [])
      else
       (let (ok, errors) = validate_inputs uploaded job_description
        in if \<not> ok then (InputErrors errors, [])
           else
            (case uploaded of
               Some f \<Rightarrow>
                 (let (res, calls) = process_resume_analysis env f job_description
                  in case res of
                       Failure msg \<Rightarrow> (AnalysisFailed msg, calls)
                     | Success resume_text analysis_result suggestions info \<Rightarrow> (Results res, calls))
             | None \<Rightarrow> (InputErrors errors, []))))"

text \<open>
  What \<open>display_results\<close> reads from the \<open>ai_analysis\<close> of an analysis, each with the
  default of its \<open>get\<close>: \<open>overall_score\<close>, the gauge drawn from it, the
  \<open>recommendations\<close> of the fourth tab, and the strengths and weaknesses listed in the
  summary report. Each definition is the value these lines compute when control reaches
  them; the calls that \<open>display_results\<close> makes before them are not modelled.
\<close>

definition overall_score :: "analysis \<Rightarrow> exn + json" where
  "overall_score result = dict_get (ai_analysis result) ''overall_match_score'' (JInt 0)"


definition recommendations :: "analysis \<Rightarrow> exn + json" where
  "recommendations result = dict_get (ai_analysis result) ''recommendations'' (JArray [])"

definition summary_strengths :: "analysis \<Rightarrow> exn + json" where
  "summary_strengths result = dict_get (ai_analysis result) ''strengths'' (JArray [])"

definition summary_weaknesses :: "analysis \<Rightarrow> exn + json" where
  "summary_weaknesses result = dict_get (ai_analysis result) ''weaknesses'' (JArray [])"

section \<open>Sample collaborators\<close>

text \<open>
  Concrete collaborators, on which the theorems below are run. \<open>sample_fitz\<close> knows two
  files: one page of ten characters, and one page of a short resume; any other bytes
  do not open.
\<close>

definition sample_fitz :: fitz where
  "sample_fitz pdf_bytes =
     (if pdf_bytes = ''%PDF-ten'' then Inr [Inr ''0123456789'']
      else if pdf_bytes = ''%PDF-resume''
      then Inr [Inr ''Experienced Python developer with React and AWS skills'']
      else Inl (Exception ''Failed to open stream''))"


definition sample_loads :: "string \<Rightarrow> exn + json" where
  \<open>sample_loads s =
     (if s = ''{"overall_match_score": 150, "strengths": []}''
      then Inr (JObject [(''overall_match_score'', JInt 150), (''strengths'', JArray [])])
      else if s = ''{}'' then Inr (JObject [])
      else if s = ''[]'' then Inr (JArray [])
      else if 100000 \<le> length (takeWhile (\<lambda>c. c = CHR ''['') s)
      then Inl (Exception ''maximum recursion depth exceeded while decoding a JSON array from a unicode string'')
      else Inl (JSONDecodeError ''Expecting value: line 1 column 1 (char 0)''))\<close>


text \<open>
  \<open>sample_analyzer reply\<close>: the model answers every prompt with \<open>reply\<close>, without
  reading it; the embedding model did not load; the tokenizer data is missing, so
  keywords come from \<open>split\<close>; four stop words; \<open>json_dumps\<close> writes every value as the
  empty dict.
\<close>

definition sample_analyzer :: "exn + string \<Rightarrow> analyzer" where
  "sample_analyzer reply =
     \<lparr>llm_invoke = (\<lambda>prompt. reply),
      sentence_model = None,
      stop_words = set [''the'', ''and'', ''for'', ''with''],
      word_tokenize = (\<lambda>s. Inl (Exception ''Resource punkt not found.'')),
      json_loads = sample_loads,
      json_dumps = (\<lambda>v. ''{}''),
      get_timestamp = ''2024-01-01T00:00:00''\<rparr>"

definition sample_app :: "exn + string \<Rightarrow> app" where
  "sample_app reply =
     \<lparr>app_config = \<lparr>OPENROUTER_API_KEY = Some ''sk-or-test'', secrets_get = Inr None\<rparr>,
      app_fitz_open = sample_fitz,
      ResumeAnalyzer = (\<lambda>api_key. Inr (sample_analyzer reply))\<rparr>"

definition sample_upload :: uploaded_file where
  "sample_upload = \<lparr>upload_name = ''resume.pdf'', upload_size = 11, upload_content = ''%PDF-resume''\<rparr>"

section \<open>Properties of text extraction\<close>

lemma rstrip_prefix: "\<exists>v. s = rstrip s @ v"
proof -
  have "rev (takeWhile isspace (rev s) @ dropWhile isspace (rev s)) = s"
    by (simp only: takeWhile_dropWhile_id rev_rev_ident)
  then have "rstrip s @ rev (takeWhile isspace (rev s)) = s"
    by (simp only: rev_append rstrip_def)
  then show ?thesis by metis
qed

lemma rstrip_idem: "rstrip (rstrip s) = rstrip s"
  by (simp add: rstrip_def)

lemma lstrip_rstrip_lstrip: "lstrip (rstrip (lstrip s)) = rstrip (lstrip s)"
proof (cases "rstrip (lstrip s) = []")
  case True
  then show ?thesis by (simp add: lstrip_def)
next
  case False
  obtain v where v: "lstrip s = rstrip (lstrip s) @ v" using rstrip_prefix by blast
  from False v have ne: "lstrip s \<noteq> []" by auto
  from False v have "hd (rstrip (lstrip s)) = hd (lstrip s)" by (metis hd_append2)
  moreover have "\<not> isspace (hd (lstrip s))"
    using ne unfolding lstrip_def by (metis hd_dropWhile)
  ultimately have "\<not> isspace (hd (rstrip (lstrip s)))" by simp
  with False show ?thesis
    unfolding lstrip_def by (cases "rstrip (dropWhile isspace s)") auto
qed

lemma strip_strip: "strip (strip s) = strip s"
  by (simp add: strip_def lstrip_rstrip_lstrip rstrip_idem)

lemma strip_empty: "strip [] = []"
  by (simp add: strip_def rstrip_def lstrip_def)

lemma extract_text_pymupdf_stripped:
  "strip (extract_text_pymupdf fitz_open pdf_file) = extract_text_pymupdf fitz_open pdf_file"
  by (simp add: extract_text_pymupdf_def strip_strip strip_empty split: sum.splits)

lemma extract_text_success:
  "success (extract_text fitz_open pdf_file meth) =
     (10 < length (extract_text_pymupdf fitz_open pdf_file))"
proof (cases "fitz_open pdf_file")
  case (Inl e)
  then show ?thesis by (simp add: extract_text_def extract_text_pymupdf_def)
next
  case (Inr doc)
  then show ?thesis
    by (auto simp: extract_text_def Let_def extract_text_pymupdf_stripped)
qed

lemma extract_text_error:
  "(extraction.error (extract_text fitz_open pdf_file meth) = None) =
     success (extract_text fitz_open pdf_file meth)"
  by (cases "fitz_open pdf_file") (auto simp: extract_text_def Let_def)

lemma extract_text_text:
  "success (extract_text fitz_open pdf_file meth) \<Longrightarrow>
     text (extract_text fitz_open pdf_file meth) = extract_text_pymupdf fitz_open pdf_file"
  by (cases "fitz_open pdf_file") (auto simp: extract_text_def Let_def split: if_splits)

lemma strip_digits: "strip ''0123456789'' = ''0123456789''"
  by (simp add: strip_def rstrip_def lstrip_def isspace_def)

lemma sample_ten_extracted: "extract_text_pymupdf sample_fitz ''%PDF-ten'' = ''0123456789''"
  by (simp add: extract_text_pymupdf_def sample_fitz_def strip_def rstrip_def lstrip_def
      isspace_def)

lemma sample_ten_result:
  "extract_text sample_fitz ''%PDF-ten'' ''auto'' =
     \<lparr>text = [], method_used = ''pymupdf'', success = False,
      error = Some ''No text extracted or text too short'', page_count = 1\<rparr>"
  unfolding extract_text_def Let_def sample_ten_extracted strip_digits
  by (simp add: sample_fitz_def)

text \<open>
  C5, as stated, fails: a file whose extracted text has exactly ten characters, which is
  neither empty nor shorter than ten, is reported as a failure.
\<close>

theorem extract_text_ten_chars_counterexample:
  "length (extract_text_pymupdf sample_fitz ''%PDF-ten'') = 10
   \<and> \<not> success (extract_text sample_fitz ''%PDF-ten'' ''auto'')
   \<and> extraction.error (extract_text sample_fitz ''%PDF-ten'' ''auto'')
       = Some ''No text extracted or text too short''"
  unfolding sample_ten_result by (simp add: sample_ten_extracted)

text \<open>
  C5, amended: \<open>extract_text\<close> reports a failure, with \<open>success\<close> false and an error that
  is not \<open>None\<close>, exactly when the extracted text has at most ten characters (a file that
  does not open gives the empty text); a text of more than ten characters gives
  \<open>success\<close> true.
\<close>

theorem extract_text_fails_iff_at_most_ten:
  "(\<not> success (extract_text fitz_open pdf_file meth)
      \<and> extraction.error (extract_text fitz_open pdf_file meth) \<noteq> None)
     = (length (extract_text_pymupdf fitz_open pdf_file) \<le> 10)
   \<and> success (extract_text fitz_open pdf_file meth)
     = (10 < length (extract_text_pymupdf fitz_open pdf_file))"
  using extract_text_error [of fitz_open pdf_file meth]
  by (auto simp: extract_text_success)

lemma sample_resume_extracted:
  "extract_text_pymupdf sample_fitz ''%PDF-resume''
     = ''Experienced Python developer with React and AWS skills''"
  by (simp add: extract_text_pymupdf_def sample_fitz_def strip_def rstrip_def lstrip_def
      isspace_def)

lemma sample_broken_extracted: "extract_text_pymupdf sample_fitz ''not a pdf'' = []"
  by (simp add: extract_text_pymupdf_def sample_fitz_def)

theorem extract_text_fails_iff_at_most_ten_witness:
  "success (extract_text sample_fitz ''%PDF-resume'' ''auto'')
   \<and> 10 < length (extract_text_pymupdf sample_fitz ''%PDF-resume'')
   \<and> \<not> success (extract_text sample_fitz ''not a pdf'' ''auto'')
   \<and> extraction.error (extract_text sample_fitz ''not a pdf'' ''auto'') \<noteq> None"
  using extract_text_fails_iff_at_most_ten [of sample_fitz "''%PDF-resume''" "''auto''"]
    extract_text_fails_iff_at_most_ten [of sample_fitz "''not a pdf''" "''auto''"]
  by (simp add: sample_resume_extracted sample_broken_extracted)

text \<open>
  C10: \<open>extract_text\<close> is total, so it returns a record for every input and never
  raises; in the record \<open>success\<close> is true exactly when \<open>error\<close> is \<open>None\<close>, a successful
  record carries a text that is not empty, and a failed one carries an error message.
\<close>

theorem extract_text_success_iff_no_error:
  "success (extract_text fitz_open pdf_file meth)
     = (extraction.error (extract_text fitz_open pdf_file meth) = None)
   \<and> (success (extract_text fitz_open pdf_file meth)
        \<longrightarrow> text (extract_text fitz_open pdf_file meth) \<noteq> [])
   \<and> (\<not> success (extract_text fitz_open pdf_file meth)
        \<longrightarrow> (\<exists>message. extraction.error (extract_text fitz_open pdf_file meth)
                         = Some message))"
proof (intro conjI impI)
  show "success (extract_text fitz_open pdf_file meth)
          = (extraction.error (extract_text fitz_open pdf_file meth) = None)"
    by (simp add: extract_text_error)
next
  assume ok: "success (extract_text fitz_open pdf_file meth)"
  then have "10 < length (extract_text_pymupdf fitz_open pdf_file)"
    by (simp add: extract_text_success)
  with ok show "text (extract_text fitz_open pdf_file meth) \<noteq> []"
    by (auto simp: extract_text_text)
next
  assume "\<not> success (extract_text fitz_open pdf_file meth)"
  then have "extraction.error (extract_text fitz_open pdf_file meth) \<noteq> None"
    by (simp add: extract_text_error)
  then show "\<exists>message. extraction.error (extract_text fitz_open pdf_file meth) = Some message"
    by auto
qed

theorem extract_text_success_iff_no_error_witness:
  "success (extract_text sample_fitz ''%PDF-resume'' ''auto'')
   \<and> extraction.error (extract_text sample_fitz ''%PDF-resume'' ''auto'') = None
   \<and> text (extract_text sample_fitz ''%PDF-resume'' ''auto'') \<noteq> []
   \<and> \<not> success (extract_text sample_fitz ''not a pdf'' ''auto'')
   \<and> extraction.error (extract_text sample_fitz ''not a pdf'' ''auto'')
       = Some ''Failed to open stream''"
proof -
  have ok: "success (extract_text sample_fitz ''%PDF-resume'' ''auto'')"
    by (simp add: extract_text_success sample_resume_extracted)
  have bad: "\<not> success (extract_text sample_fitz ''not a pdf'' ''auto'')"
    by (simp add: extract_text_success sample_broken_extracted)
  have msg: "extraction.error (extract_text sample_fitz ''not a pdf'' ''auto'')
               = Some ''Failed to open stream''"
    by (simp add: extract_text_def sample_fitz_def)
  show ?thesis
    using ok bad msg
      extract_text_success_iff_no_error [of sample_fitz "''%PDF-resume''" "''auto''"]
    by simp
qed

section \<open>Properties of keyword extraction\<close>

lemma counter_add_keys: "fst ` set (counter_add w items) = insert w (fst ` set items)"
proof (induction items)
  case Nil
  then show ?case by simp
next
  case (Cons item items)
  obtain k c where item: "item = (k, c)" by (cases item)
  show ?case
  proof (cases "k = w")
    case True
    then show ?thesis by (simp add: item)
  next
    case False
    then show ?thesis by (simp add: item Cons.IH insert_commute)
  qed
qed

lemma counter_add_distinct:
  "distinct (map fst items) \<Longrightarrow> distinct (map fst (counter_add w items))"
proof (induction items)
  case Nil
  then show ?case by simp
next
  case (Cons item items)
  obtain k c where item: "item = (k, c)" by (cases item)
  from Cons show ?case
    using counter_add_keys [of w items] by (cases "k = w") (simp_all add: item)
qed

lemma foldl_counter_add_keys:
  "fst ` set (foldl (\<lambda>items w. counter_add w items) acc ws) = fst ` set acc \<union> set ws"
  by (induction ws arbitrary: acc) (simp_all add: counter_add_keys)

lemma foldl_counter_add_distinct:
  "distinct (map fst acc) \<Longrightarrow>
     distinct (map fst (foldl (\<lambda>items w. counter_add w items) acc ws))"
  by (induction ws arbitrary: acc) (auto simp: counter_add_distinct)

lemma Counter_keys: "fst ` set (Counter ws) = set ws"
  by (simp add: Counter_def foldl_counter_add_keys)

lemma Counter_distinct: "distinct (map fst (Counter ws))"
  by (simp add: Counter_def foldl_counter_add_distinct)

lemma most_common_length: "length (most_common items n) \<le> nat n"
  by (simp add: most_common_def)

lemma most_common_subset: "set (most_common items n) \<subseteq> set items"
  unfolding most_common_def using set_take_subset [of "nat n"] by fastforce

lemma most_common_distinct:
  assumes "distinct (map fst items)"
  shows "distinct (map fst (most_common items n))"
proof -
  have "distinct (map fst (sort_key (\<lambda>item. - int (snd item)) items))"
    using assms by (simp add: distinct_map)
  then have "distinct (take (nat n) (map fst (sort_key (\<lambda>item. - int (snd item)) items)))"
    by (rule distinct_take)
  then show ?thesis
    by (simp add: most_common_def take_map)
qed

lemma extract_keywords_length: "length (extract_keywords self raw_text top_n) \<le> nat top_n"
  by (simp add: extract_keywords_def Let_def most_common_length)

lemma extract_keywords_distinct: "distinct (extract_keywords self raw_text top_n)"
  by (simp add: extract_keywords_def Let_def most_common_distinct Counter_distinct)

lemma extract_keywords_filtered:
  assumes "w \<in> set (extract_keywords self raw_text top_n)"
  shows "w \<notin> stop_words self \<and> 3 \<le> length w"
proof -
  define tokens where "tokens = (case word_tokenize self (re_sub_punctuation (lower raw_text)) of
      Inr ts \<Rightarrow> ts | Inl nltk_error \<Rightarrow> split (re_sub_punctuation (lower raw_text)))"
  define kept where
    "kept = filter (\<lambda>word. word \<notin> stop_words self \<and> 2 < length word) tokens"
  have "extract_keywords self raw_text top_n = map fst (most_common (Counter kept) top_n)"
    by (simp add: extract_keywords_def Let_def kept_def tokens_def)
  with assms have "w \<in> fst ` set (most_common (Counter kept) top_n)" by simp
  then have "w \<in> fst ` set (Counter kept)"
    using most_common_subset [of "Counter kept" top_n] by blast
  then have "w \<in> set kept" using Counter_keys [of kept] by simp
  then show ?thesis by (auto simp: kept_def)
qed



text \<open>
  C7, as stated, fails for a negative \<open>top_n\<close>: the result is the empty list, whose
  length 0 is not at most \<open>- 1\<close>.
\<close>

theorem extract_keywords_negative_top_n_counterexample:
  "extract_keywords (sample_analyzer (Inr ''{}''))
     ''The cat and the dog and the cat, and a bird.'' (- 1) = []
   \<and> \<not> int (length (extract_keywords (sample_analyzer (Inr ''{}''))
               ''The cat and the dog and the cat, and a bird.'' (- 1))) \<le> - 1"
proof -
  have "length (extract_keywords (sample_analyzer (Inr ''{}''))
          ''The cat and the dog and the cat, and a bird.'' (- 1)) \<le> nat (- 1)"
    by (rule extract_keywords_length)
  then have "extract_keywords (sample_analyzer (Inr ''{}''))
          ''The cat and the dog and the cat, and a bird.'' (- 1) = []" by simp
  then show ?thesis by simp
qed

text \<open>
  C7, amended: for every text and every \<open>top_n\<close>, \<open>extract_keywords\<close> returns a list
  (the model is total: the one step that can raise, the tokenizer, is replaced by
  \<open>split\<close>) in which no keyword is a stop word and none is shorter than three
  characters. For \<open>top_n \<ge> 0\<close> the list has at most \<open>top_n\<close> keywords; for a negative
  \<open>top_n\<close> it is empty.
\<close>

theorem extract_keywords_bounded_filtered:
  "(0 \<le> top_n \<longrightarrow> int (length (extract_keywords self raw_text top_n)) \<le> top_n)
   \<and> (top_n < 0 \<longrightarrow> extract_keywords self raw_text top_n = [])
   \<and> (\<forall>w \<in> set (extract_keywords self raw_text top_n). w \<notin> stop_words self \<and> 3 \<le> length w)"
proof (intro conjI impI ballI)
  assume "0 \<le> top_n"
  then show "int (length (extract_keywords self raw_text top_n)) \<le> top_n"
    using extract_keywords_length [of self raw_text top_n] by simp
next
  assume "top_n < 0"
  then show "extract_keywords self raw_text top_n = []"
    using extract_keywords_length [of self raw_text top_n] by simp
next
  fix w assume "w \<in> set (extract_keywords self raw_text top_n)"
  then show "w \<notin> stop_words self" by (simp add: extract_keywords_filtered)
next
  fix w assume "w \<in> set (extract_keywords self raw_text top_n)"
  then show "3 \<le> length w" by (simp add: extract_keywords_filtered)
qed

lemma sample_keywords:
  "extract_keywords (sample_analyzer (Inr ''{}''))
     ''The cat and the dog and the cat, and a bird.'' 2 = [''cat'', ''dog'']"
  by code_simp

theorem extract_keywords_bounded_filtered_witness:
  "extract_keywords (sample_analyzer (Inr ''{}''))
     ''The cat and the dog and the cat, and a bird.'' 2 = [''cat'', ''dog'']
   \<and> int (length (extract_keywords (sample_analyzer (Inr ''{}''))
                     ''The cat and the dog and the cat, and a bird.'' 2)) \<le> 2
   \<and> ''cat'' \<notin> stop_words (sample_analyzer (Inr ''{}'')) \<and> 3 \<le> length ''cat''
   \<and> ''dog'' \<notin> stop_words (sample_analyzer (Inr ''{}'')) \<and> 3 \<le> length ''dog''"
  using extract_keywords_bounded_filtered
      [of 2 "sample_analyzer (Inr ''{}'')" "''The cat and the dog and the cat, and a bird.''"]
  by (simp add: sample_keywords)

section \<open>Properties of rounding\<close>

lemma round_half_even_ge: "of_int k \<le> y \<Longrightarrow> k \<le> round_half_even y"
proof -
  assume "of_int k \<le> y"
  then have "k \<le> floor y" by (simp add: le_floor_iff)
  then show ?thesis by (auto simp: round_half_even_def Let_def)
qed

lemma round_half_even_le: "y \<le> of_int k \<Longrightarrow> round_half_even y \<le> k"
proof -
  assume le: "y \<le> of_int k"
  have f: "floor y \<le> k" using le by (simp add: floor_le_iff) 
  show ?thesis
  proof (cases "y - of_int (floor y) < 1 / 2")
    case True
    then show ?thesis using f by (simp add: round_half_even_def Let_def)
  next
    case False
    then have "of_int (floor y) < y" by simp
    with le have "of_int (floor y) < (of_int k :: rat)" by simp
    then have "floor y < k" by simp
    then show ?thesis by (auto simp: round_half_even_def Let_def)
  qed
qed

lemma py_round_ge: "of_int k \<le> x * 10 ^ n \<Longrightarrow> of_int k / 10 ^ n \<le> py_round x n"
  by (simp add: py_round_def round_half_even_ge divide_right_mono)

lemma py_round_le: "x * 10 ^ n \<le> of_int k \<Longrightarrow> py_round x n \<le> of_int k / 10 ^ n"
  by (simp add: py_round_def round_half_even_le divide_right_mono)

lemma py_round2_bounds:
  assumes "0 \<le> x" "x \<le> 100"
  shows "0 \<le> py_round x 2 \<and> py_round x 2 \<le> 100"
proof -
  have "of_int 0 \<le> x * 10 ^ 2" using assms by simp
  from py_round_ge [OF this] have lo: "0 \<le> py_round x 2" by simp
  have "x * 10 ^ 2 \<le> of_int 10000" using assms by simp
  from py_round_le [OF this] have "py_round x 2 \<le> 100" by simp
  with lo show ?thesis by simp
qed

lemma py_round2_positive:
  assumes "1 \<le> x"
  shows "0 < py_round x 2"
proof -
  have "of_int 100 \<le> x * 10 ^ 2" using assms by simp
  from py_round_ge [OF this] show ?thesis by simp
qed

lemma py_round2_zero: "py_round 0 2 = 0"
  by (simp add: py_round_def round_half_even_def)

lemma py_round2_hundred: "py_round 100 2 = 100"
  using py_round2_bounds [of 100] py_round_ge [of 10000 100 2] by simp

section \<open>Properties of the analysis\<close>

lemma analyze_resume_calls:
  "snd (analyze_resume self resume_text job_description)
     = [match_analysis_prompt_format resume_text job_description]"
  by (simp add: analyze_resume_def Let_def split: sum.splits)

lemma analyze_resume_llm_error:
  "llm_invoke self (match_analysis_prompt_format resume_text job_description) = Inl e \<Longrightarrow>
     fst (analyze_resume self resume_text job_description) = error_result self e"
  by (simp add: analyze_resume_def Let_def)

lemma analyze_resume_parse_error:
  "llm_invoke self (match_analysis_prompt_format resume_text job_description) = Inr reply \<Longrightarrow>
   parse_response self reply = Inl e \<Longrightarrow>
     fst (analyze_resume self resume_text job_description) = error_result self e"
  by (simp add: analyze_resume_def Let_def)

lemma analyze_resume_parsed:
  "llm_invoke self (match_analysis_prompt_format resume_text job_description) = Inr content \<Longrightarrow>
   parse_response self content = Inr parsed \<Longrightarrow>
     fst (analyze_resume self resume_text job_description) =
       \<lparr>error = None, ai_analysis = parsed,
        keyword_analysis = Some (keyword_overlap self resume_text job_description),
        semantic_similarity =
          py_round (calculate_semantic_similarity self resume_text job_description * 100) 2,
        analysis_timestamp = get_timestamp self\<rparr>"
  by (simp add: analyze_resume_def Let_def)

lemma analyze_resume_keyword_analysis:
  "keyword_analysis (fst (analyze_resume self resume_text job_description)) = Some report \<Longrightarrow>
     report = keyword_overlap self resume_text job_description"
  by (auto simp: analyze_resume_def Let_def error_result_def split: sum.splits)

section \<open>Properties of the keyword match rate\<close>

lemma common_card_le:
  "card (set (extract_keywords self a 20) \<inter> set (extract_keywords self b 20)) \<le> length (extract_keywords self b 20)"
proof -
  have "card (set (extract_keywords self a 20) \<inter> set (extract_keywords self b 20))
          \<le> card (set (extract_keywords self b 20))"
    by (simp add: card_mono)
  also have "\<dots> \<le> length (extract_keywords self b 20)" by (rule card_length)
  finally show ?thesis .
qed

lemma raw_rate_bounds:
  fixes c n :: nat
  assumes "c \<le> n"
  shows "0 \<le> (if n \<noteq> 0 then of_nat c / of_nat n else (0::rat)) * 100"
    and "(if n \<noteq> 0 then of_nat c / of_nat n else (0::rat)) * 100 \<le> 100"
  using assms by (auto simp: divide_le_eq)

lemma raw_rate_at_least_five:
  fixes c n :: nat
  assumes "1 \<le> c" "c \<le> n" "n \<le> 20"
  shows "1 \<le> (of_nat c / of_nat n :: rat) * 100"
proof -
  have n: "0 < n" using assms by simp
  have "n \<le> c * 100" using assms by simp
  then have "(of_nat n :: rat) \<le> of_nat (c * 100)" by (simp only: of_nat_le_iff)
  then have "(of_nat n :: rat) \<le> of_nat c * 100" by simp
  then show ?thesis using n by (simp add: le_divide_eq)
qed

lemma keyword_overlap_fields:
  "resume_keywords (keyword_overlap self a b) = extract_keywords self a 20"
  "job_keywords (keyword_overlap self a b) = extract_keywords self b 20"
  "common_keywords (keyword_overlap self a b)
     = set (extract_keywords self a 20) \<inter> set (extract_keywords self b 20)"
  "missing_keywords (keyword_overlap self a b)
     = set (extract_keywords self b 20) - set (extract_keywords self a 20)"
  "keyword_match_rate (keyword_overlap self a b)
     = py_round ((if extract_keywords self b 20 \<noteq> []
                  then of_nat (card (set (extract_keywords self a 20)
                                       \<inter> set (extract_keywords self b 20)))
                       / of_nat (length (extract_keywords self b 20))
                  else 0) * 100) 2"
  by (simp_all add: keyword_overlap_def Let_def)

lemma keyword_match_rate_bounds:
  "0 \<le> keyword_match_rate (keyword_overlap self a b)
   \<and> keyword_match_rate (keyword_overlap self a b) \<le> 100"
proof -
  define c where "c = card (set (extract_keywords self a 20) \<inter> set (extract_keywords self b 20))"
  define n where "n = length (extract_keywords self b 20)"
  have le: "c \<le> n" unfolding c_def n_def by (rule common_card_le)
  have rate: "keyword_match_rate (keyword_overlap self a b)
                = py_round ((if n \<noteq> 0 then of_nat c / of_nat n else 0) * 100) 2"
    by (simp add: keyword_overlap_fields c_def n_def)
  show ?thesis
    unfolding rate using raw_rate_bounds [OF le] by (intro py_round2_bounds)
qed

lemma keyword_match_rate_zero_iff:
  "(keyword_match_rate (keyword_overlap self a b) = 0)
     = (common_keywords (keyword_overlap self a b) = {})"
proof -
  define c where "c = card (set (extract_keywords self a 20) \<inter> set (extract_keywords self b 20))"
  define n where "n = length (extract_keywords self b 20)"
  have le: "c \<le> n" unfolding c_def n_def by (rule common_card_le)
  have n20: "n \<le> 20" unfolding n_def using extract_keywords_length [of self b 20] by simp
  have rate: "keyword_match_rate (keyword_overlap self a b)
                = py_round ((if n \<noteq> 0 then of_nat c / of_nat n else 0) * 100) 2"
    by (simp add: keyword_overlap_fields c_def n_def)
  have empty: "(common_keywords (keyword_overlap self a b) = {}) = (c = 0)"
    by (simp add: keyword_overlap_fields c_def)
  show ?thesis
  proof (cases "c = 0")
    case True
    then show ?thesis by (simp add: rate empty py_round2_zero)
  next
    case False
    then have c1: "1 \<le> c" by simp
    with le have "n \<noteq> 0" by simp
    moreover have "0 < py_round (of_nat c / of_nat n * 100) 2"
      using raw_rate_at_least_five [OF c1 le n20] by (rule py_round2_positive)
    ultimately show ?thesis using False by (simp add: rate empty)
  qed
qed

lemma keyword_match_rate_full:
  assumes "job_keywords (keyword_overlap self a b) \<noteq> []"
    and "set (job_keywords (keyword_overlap self a b))
           \<subseteq> set (resume_keywords (keyword_overlap self a b))"
  shows "keyword_match_rate (keyword_overlap self a b) = 100"
proof -
  from assms have ne: "extract_keywords self b 20 \<noteq> []"
    and sub: "set (extract_keywords self b 20) \<subseteq> set (extract_keywords self a 20)"
    by (simp_all add: keyword_overlap_fields)
  from sub have "set (extract_keywords self a 20) \<inter> set (extract_keywords self b 20)
                   = set (extract_keywords self b 20)" by blast
  then have "card (set (extract_keywords self a 20) \<inter> set (extract_keywords self b 20))
               = length (extract_keywords self b 20)"
    by (simp add: distinct_card extract_keywords_distinct)
  with ne show ?thesis by (simp add: keyword_overlap_fields py_round2_hundred)
qed

lemma sample_analysis_keywords:
  "keyword_analysis (fst (analyze_resume (sample_analyzer (Inr ''{}'')) a b))
     = Some (keyword_overlap (sample_analyzer (Inr ''{}'')) a b)"
  by (simp add: analyze_resume_def Let_def sample_analyzer_def parse_response_def sample_loads_def)

text \<open>
  C2, as stated, fails twice. A job description with keywords, none of them in the
  resume, has the rate 0 although \<open>job_keywords\<close> is not empty. And with an empty job
  description the resume keywords are a superset of the job keywords, yet the rate is 0,
  not 100.
\<close>

theorem keyword_match_rate_zero_counterexample:
  "map_option job_keywords
     (keyword_analysis (fst (analyze_resume (sample_analyzer (Inr ''{}''))
        ''python developer'' ''java engineer''))) = Some [''java'', ''engineer'']
   \<and> map_option keyword_match_rate
     (keyword_analysis (fst (analyze_resume (sample_analyzer (Inr ''{}''))
        ''python developer'' ''java engineer''))) = Some 0
   \<and> map_option job_keywords
     (keyword_analysis (fst (analyze_resume (sample_analyzer (Inr ''{}''))
        ''python developer'' ''''))) = Some []
   \<and> map_option keyword_match_rate
     (keyword_analysis (fst (analyze_resume (sample_analyzer (Inr ''{}''))
        ''python developer'' ''''))) = Some 0"
  unfolding sample_analysis_keywords option.map by code_simp

text \<open>
  C2, amended: the \<open>keyword_match_rate\<close> of every analysis lies between 0 and 100; it is
  0 exactly when the resume and the job description have no keyword in common, which
  includes every job description without keywords; and it is 100 whenever the job
  keywords are not empty and all of them are resume keywords.
\<close>

theorem keyword_match_rate_range:
  "keyword_analysis (fst (analyze_resume self resume_text job_description)) = Some report \<Longrightarrow>
     0 \<le> keyword_match_rate report \<and> keyword_match_rate report \<le> 100
     \<and> (keyword_match_rate report = 0) = (common_keywords report = {})
     \<and> (job_keywords report = [] \<longrightarrow> keyword_match_rate report = 0)
     \<and> (job_keywords report \<noteq> [] \<and> set (job_keywords report) \<subseteq> set (resume_keywords report)
          \<longrightarrow> keyword_match_rate report = 100)"
proof -
  assume "keyword_analysis (fst (analyze_resume self resume_text job_description)) = Some report"
  then have report: "report = keyword_overlap self resume_text job_description"
    by (rule analyze_resume_keyword_analysis)
  have "job_keywords report = [] \<longrightarrow> common_keywords report = {}"
    by (simp add: report keyword_overlap_fields)
  then show ?thesis
    unfolding report
    using keyword_match_rate_bounds [of self resume_text job_description]
      keyword_match_rate_zero_iff [of self resume_text job_description]
      keyword_match_rate_full [of self resume_text job_description]
    by blast
qed

lemma sample_same_keywords:
  "extract_keywords (sample_analyzer (Inr ''{}'')) ''python developer'' 20
     = [''python'', ''developer'']"
  by code_simp

lemma sample_no_keywords: "extract_keywords (sample_analyzer (Inr ''{}'')) '''' 20 = []"
  by code_simp

theorem keyword_match_rate_range_witness:
  "keyword_analysis (fst (analyze_resume (sample_analyzer (Inr ''{}''))
      ''python developer'' ''python developer''))
     = Some (keyword_overlap (sample_analyzer (Inr ''{}'')) ''python developer'' ''python developer'')
   \<and> job_keywords (keyword_overlap (sample_analyzer (Inr ''{}''))
        ''python developer'' ''python developer'') = [''python'', ''developer'']
   \<and> resume_keywords (keyword_overlap (sample_analyzer (Inr ''{}''))
        ''python developer'' ''python developer'') = [''python'', ''developer'']
   \<and> keyword_match_rate (keyword_overlap (sample_analyzer (Inr ''{}''))
        ''python developer'' ''python developer'') = 100
   \<and> job_keywords (keyword_overlap (sample_analyzer (Inr ''{}'')) ''python developer'' '''') = []
   \<and> keyword_match_rate (keyword_overlap (sample_analyzer (Inr ''{}''))
        ''python developer'' '''') = 0"
  using keyword_match_rate_range [OF sample_analysis_keywords, of "''python developer''" "''python developer''"]
    keyword_match_rate_range [OF sample_analysis_keywords, of "''python developer''" "[]"]
  by (simp add: sample_analysis_keywords keyword_overlap_fields(1,2) sample_same_keywords
      sample_no_keywords)

section \<open>Properties of the model call and of parsing\<close>

lemma parse_response_cases:
  "json_loads self raw = Inr parsed \<Longrightarrow> parse_response self raw = Inr parsed"
  "json_loads self raw = Inl (JSONDecodeError m) \<Longrightarrow>
     parse_response self raw = Inr (parse_fallback_response raw)"
  "json_loads self raw = Inl (Exception m) \<Longrightarrow> parse_response self raw = Inl (Exception m)"
  by (simp_all add: parse_response_def)

lemma sample_loads_malformed:
  "sample_loads ''not json'' = Inl (JSONDecodeError ''Expecting value: line 1 column 1 (char 0)'')"
  by (simp add: sample_loads_def)


lemma sample_loads_empty: "sample_loads ''{}'' = Inr (JObject [])" "sample_loads ''[]'' = Inr (JArray [])"
  by (simp_all add: sample_loads_def)

lemma sample_analyzer_simps:
  "llm_invoke (sample_analyzer reply) prompt = reply"
  "json_loads (sample_analyzer reply) = sample_loads"
  "get_timestamp (sample_analyzer reply) = ''2024-01-01T00:00:00''"
  by (simp_all add: sample_analyzer_def)

text \<open>
  C6: when the model call of \<open>analyze_resume\<close> raises, the exception does not leave the
  function: the result is the error record, with the exception's message under \<open>error\<close>,
  an empty \<open>ai_analysis\<close>, an empty \<open>keyword_analysis\<close> and the \<open>semantic_similarity\<close> 0.
  The same holds when \<open>json.loads\<close> raises anything but \<open>JSONDecodeError\<close>.
\<close>

theorem analyze_resume_model_call_error:
  "(llm_invoke self (match_analysis_prompt_format resume_text job_description) = Inl e
      \<longrightarrow> fst (analyze_resume self resume_text job_description) =
            \<lparr>error = Some (str e), ai_analysis = JObject [], keyword_analysis = None,
             semantic_similarity = 0, analysis_timestamp = get_timestamp self\<rparr>)
   \<and> (llm_invoke self (match_analysis_prompt_format resume_text job_description) = Inr reply
        \<and> json_loads self reply = Inl (Exception m)
      \<longrightarrow> fst (analyze_resume self resume_text job_description) =
            \<lparr>error = Some m, ai_analysis = JObject [], keyword_analysis = None,
             semantic_similarity = 0, analysis_timestamp = get_timestamp self\<rparr>)"
proof (intro conjI impI)
  assume "llm_invoke self (match_analysis_prompt_format resume_text job_description) = Inl e"
  then have "fst (analyze_resume self resume_text job_description) = error_result self e"
    by (rule analyze_resume_llm_error)
  then show "fst (analyze_resume self resume_text job_description) =
      \<lparr>error = Some (str e), ai_analysis = JObject [], keyword_analysis = None,
       semantic_similarity = 0, analysis_timestamp = get_timestamp self\<rparr>"
    by (simp add: error_result_def)
next
  assume "llm_invoke self (match_analysis_prompt_format resume_text job_description) = Inr reply
            \<and> json_loads self reply = Inl (Exception m)"
  then have reply: "llm_invoke self (match_analysis_prompt_format resume_text job_description)
                      = Inr reply"
    and raised: "parse_response self reply = Inl (Exception m)"
    by (simp_all add: parse_response_cases)
  then have "fst (analyze_resume self resume_text job_description)
               = error_result self (Exception m)"
    by (rule analyze_resume_parse_error)
  then show "fst (analyze_resume self resume_text job_description) =
      \<lparr>error = Some m, ai_analysis = JObject [], keyword_analysis = None,
       semantic_similarity = 0, analysis_timestamp = get_timestamp self\<rparr>"
    by (simp add: error_result_def)
qed

theorem analyze_resume_model_call_error_witness:
  "llm_invoke (sample_analyzer (Inl (Exception ''Connection error.'')))
     (match_analysis_prompt_format ''Experienced Python developer'' ''Looking for Python developer'')
     = Inl (Exception ''Connection error.'')
   \<and> fst (analyze_resume (sample_analyzer (Inl (Exception ''Connection error.'')))
            ''Experienced Python developer'' ''Looking for Python developer'') =
         \<lparr>error = Some ''Connection error.'', ai_analysis = JObject [], keyword_analysis = None,
          semantic_similarity = 0, analysis_timestamp = ''2024-01-01T00:00:00''\<rparr>"
  using analyze_resume_model_call_error
    [of "sample_analyzer (Inl (Exception ''Connection error.''))"
        "''Experienced Python developer''" "''Looking for Python developer''"
        "Exception ''Connection error.''"]
  by (simp add: sample_analyzer_def)





section \<open>Properties of the score gauge\<close>








lemma display_score_gauge_overflow:
  assumes "2 ^ 1024 - 2 ^ 970 \<le> \<bar>n\<bar>"
  shows "display_score_gauge float_str (JInt n) title
           = Inl (Exception ''int too large to convert to float'')"
  using assms by (simp add: display_score_gauge_def float_of_int_def)

lemma display_score_gauge_raises:
  "py_float float_str score = Inl e \<Longrightarrow> display_score_gauge float_str score title = Inl e"
  by (simp add: display_score_gauge_def)

lemma overall_score_parsed:
  assumes "llm_invoke self (match_analysis_prompt_format resume_text job_description) = Inr reply"
    and "json_loads self reply = Inr parsed"
  shows "ai_analysis (fst (analyze_resume self resume_text job_description)) = parsed"
proof -
  from assms(2) have "parse_response self reply = Inr parsed" by (rule parse_response_cases)
  with assms(1) show ?thesis by (simp add: analyze_resume_parsed)
qed





section \<open>Properties of reading the analysis\<close>

text \<open>
  C3, as stated, fails: the reply \<open>{}\<close> is an object and parses, and it is stored with no
  field at all; its \<open>strengths\<close> are absent, no empty list stands for them.
\<close>

theorem analyze_resume_no_defaults_counterexample:
  "ai_analysis (fst (analyze_resume (sample_analyzer (Inr ''{}''))
      ''Experienced Python developer'' ''Looking for Python developer'')) = JObject []
   \<and> dict_get (ai_analysis (fst (analyze_resume (sample_analyzer (Inr ''{}''))
      ''Experienced Python developer'' ''Looking for Python developer''))) ''strengths'' JNull
     = Inr JNull"
  by (simp add: overall_score_parsed sample_analyzer_simps sample_loads_empty)

text \<open>
  C3, amended: on the primary path a reply that parses to an object is stored as
  \<open>ai_analysis\<close> exactly as parsed; the parsing step fills in no field, so a field absent
  from the reply is absent from \<open>ai_analysis\<close>. The default stands in when the field is
  read: \<open>display_results\<close> reads \<open>overall_match_score\<close> with the default 0, and
  \<open>strengths\<close>, \<open>weaknesses\<close> and \<open>recommendations\<close> with the default of the empty list.
\<close>

theorem analyze_resume_object_defaults_on_read:
  "llm_invoke self (match_analysis_prompt_format resume_text job_description) = Inr reply
     \<and> json_loads self reply = Inr (JObject members)
   \<longrightarrow> ai_analysis (fst (analyze_resume self resume_text job_description)) = JObject members
       \<and> overall_score (fst (analyze_resume self resume_text job_description))
           = Inr (case map_of members ''overall_match_score'' of Some v \<Rightarrow> v | None \<Rightarrow> JInt 0)
       \<and> summary_strengths (fst (analyze_resume self resume_text job_description))
           = Inr (case map_of members ''strengths'' of Some v \<Rightarrow> v | None \<Rightarrow> JArray [])
       \<and> summary_weaknesses (fst (analyze_resume self resume_text job_description))
           = Inr (case map_of members ''weaknesses'' of Some v \<Rightarrow> v | None \<Rightarrow> JArray [])
       \<and> recommendations (fst (analyze_resume self resume_text job_description))
           = Inr (case map_of members ''recommendations'' of Some v \<Rightarrow> v | None \<Rightarrow> JArray [])"
proof
  assume "llm_invoke self (match_analysis_prompt_format resume_text job_description) = Inr reply
            \<and> json_loads self reply = Inr (JObject members)"
  then have stored: "ai_analysis (fst (analyze_resume self resume_text job_description))
                       = JObject members"
    by (simp add: overall_score_parsed)
  show "ai_analysis (fst (analyze_resume self resume_text job_description)) = JObject members
       \<and> overall_score (fst (analyze_resume self resume_text job_description))
           = Inr (case map_of members ''overall_match_score'' of Some v \<Rightarrow> v | None \<Rightarrow> JInt 0)
       \<and> summary_strengths (fst (analyze_resume self resume_text job_description))
           = Inr (case map_of members ''strengths'' of Some v \<Rightarrow> v | None \<Rightarrow> JArray [])
       \<and> summary_weaknesses (fst (analyze_resume self resume_text job_description))
           = Inr (case map_of members ''weaknesses'' of Some v \<Rightarrow> v | None \<Rightarrow> JArray [])
       \<and> recommendations (fst (analyze_resume self resume_text job_description))
           = Inr (case map_of members ''recommendations'' of Some v \<Rightarrow> v | None \<Rightarrow> JArray [])"
    by (simp add: stored overall_score_def summary_strengths_def summary_weaknesses_def
        recommendations_def)
qed

theorem analyze_resume_object_defaults_on_read_witness:
  "llm_invoke (sample_analyzer (Inr ''{}''))
      (match_analysis_prompt_format ''Experienced Python developer'' ''Looking for Python developer'')
     = Inr ''{}''
   \<and> json_loads (sample_analyzer (Inr ''{}'')) ''{}'' = Inr (JObject [])
   \<and> ai_analysis (fst (analyze_resume (sample_analyzer (Inr ''{}''))
        ''Experienced Python developer'' ''Looking for Python developer'')) = JObject []
   \<and> overall_score (fst (analyze_resume (sample_analyzer (Inr ''{}''))
        ''Experienced Python developer'' ''Looking for Python developer'')) = Inr (JInt 0)
   \<and> summary_strengths (fst (analyze_resume (sample_analyzer (Inr ''{}''))
        ''Experienced Python developer'' ''Looking for Python developer'')) = Inr (JArray [])
   \<and> recommendations (fst (analyze_resume (sample_analyzer (Inr ''{}''))
        ''Experienced Python developer'' ''Looking for Python developer'')) = Inr (JArray [])"
  using analyze_resume_object_defaults_on_read
      [of "sample_analyzer (Inr ''{}'')" "''Experienced Python developer''"
          "''Looking for Python developer''" "''{}''" "[]"]
  by (simp add: sample_analyzer_simps sample_loads_empty)

section \<open>Properties of input validation\<close>

lemma validate_inputs_short_job:
  "length (strip job_description) < 50 \<Longrightarrow>
     \<not> fst (validate_inputs uploaded job_description)
     \<and> JobDescriptionTooShort \<in> set (snd (validate_inputs uploaded job_description))"
  by (simp add: validate_inputs_def Let_def)

lemma validate_inputs_passed:
  assumes "fst (validate_inputs uploaded job_description)"
  shows "job_description \<noteq> [] \<and> 50 \<le> length (strip job_description)"
  using assms by (auto simp: validate_inputs_def Let_def split: if_splits)

lemma main_calls_validated:
  assumes "snd (main env uploaded job_description process_button) \<noteq> []"
  shows "process_button \<and> fst (validate_inputs uploaded job_description)"
proof -
  obtain ok errors where v: "validate_inputs uploaded job_description = (ok, errors)"
    by (cases "validate_inputs uploaded job_description")
  from assms have pressed: process_button
    by (cases process_button) (simp_all add: main_def)
  have ok
  proof (rule ccontr)
    assume "\<not> ok"
    with v pressed have "snd (main env uploaded job_description process_button) = []"
      by (simp add: main_def)
    with assms show False by simp
  qed
  with pressed v show ?thesis by simp
qed

text \<open>
  C8: when the job description is empty, or has fewer than 50 characters once stripped,
  the request stops at the validation of \<open>main\<close>: no prompt is sent to the model, and
  when the button was pressed the page shows the input errors, the too-short job
  description among them. \<open>process_resume_analysis\<close>, the only caller of
  \<open>analyze_resume\<close>, is entered after the validation alone: whenever \<open>main\<close> sends a
  prompt, the button was pressed, the inputs were valid and the stripped job description
  has at least 50 characters.
\<close>

theorem main_rejects_short_job_description:
  "(job_description = [] \<or> length (strip job_description) < 50 \<longrightarrow>
      snd (main env uploaded job_description process_button) = []
      \<and> (process_button \<longrightarrow>
            fst (main env uploaded job_description process_button)
              = InputErrors (snd (validate_inputs uploaded job_description))
            \<and> JobDescriptionTooShort \<in> set (snd (validate_inputs uploaded job_description))))
   \<and> (snd (main env uploaded job_description process_button) \<noteq> [] \<longrightarrow>
        process_button \<and> fst (validate_inputs uploaded job_description)
        \<and> job_description \<noteq> [] \<and> 50 \<le> length (strip job_description))"
proof (intro conjI impI)
  assume "job_description = [] \<or> length (strip job_description) < 50"
  then have short: "length (strip job_description) < 50" by (auto simp: strip_empty)
  obtain ok errors where v: "validate_inputs uploaded job_description = (ok, errors)"
    by (cases "validate_inputs uploaded job_description")
  from validate_inputs_short_job [OF short, of uploaded] v have "\<not> ok" by simp
  with v show "snd (main env uploaded job_description process_button) = []"
    by (simp add: main_def)
  assume pressed: process_button
  from \<open>\<not> ok\<close> v pressed
  show "fst (main env uploaded job_description process_button)
          = InputErrors (snd (validate_inputs uploaded job_description))"
    by (simp add: main_def)
  from validate_inputs_short_job [OF short, of uploaded]
  show "JobDescriptionTooShort \<in> set (snd (validate_inputs uploaded job_description))"
    by simp
next
  assume calls: "snd (main env uploaded job_description process_button) \<noteq> []"
  from main_calls_validated [OF calls] show process_button by simp
  from main_calls_validated [OF calls]
  have ok: "fst (validate_inputs uploaded job_description)" by simp
  then show "fst (validate_inputs uploaded job_description)" .
  from validate_inputs_passed [OF ok] show "job_description \<noteq> []" by simp
  from validate_inputs_passed [OF ok] show "50 \<le> length (strip job_description)" by simp
qed

lemma sample_validate_inputs:
  "validate_inputs (Some sample_upload) '''' = (False, [JobDescriptionTooShort])"
  by code_simp

theorem main_rejects_short_job_description_witness:
  "length (strip '''') < 50
   \<and> main (sample_app (Inr ''{}'')) (Some sample_upload) '''' True
       = (InputErrors [JobDescriptionTooShort], [])"
  using main_rejects_short_job_description
      [of "[]" "sample_app (Inr ''{}'')" "Some sample_upload" True]
  by (simp add: sample_validate_inputs strip_empty prod_eq_iff)

text \<open>
  With a job description that is long enough, the same upload goes through: \<open>main\<close>
  sends two prompts, one for the analysis and one for the suggestions.
\<close>

lemma sample_main_calls:
  "length (snd (main (sample_app (Inr ''{}'')) (Some sample_upload)
     ''Looking for Python developer with 3 years experience, React, AWS, and Docker knowledge''
     True)) = 2"
  by code_simp

section \<open>Properties of the improvement suggestions\<close>

lemma suggestions_body_cases:
  "llm_invoke self prompt = Inl e \<Longrightarrow> suggestions_body self prompt = Inl e"
  "llm_invoke self prompt = Inr reply \<Longrightarrow> json_loads self reply = Inl (Exception m) \<Longrightarrow>
     suggestions_body self prompt = Inl (Exception m)"
  "llm_invoke self prompt = Inr reply \<Longrightarrow> json_loads self reply = Inl (JSONDecodeError m) \<Longrightarrow>
     suggestions_body self prompt = Inr (parse_fallback_suggestions reply)"
  "llm_invoke self prompt = Inr reply \<Longrightarrow> json_loads self reply = Inr parsed \<Longrightarrow>
     suggestions_body self prompt = Inr parsed"
  by (simp_all add: suggestions_body_def)

text \<open>
  C9, as stated, fails: when the reply is not valid JSON, \<open>json.loads\<close> raises
  during parsing and the result is the fallback suggestions, whose
  \<open>immediate_improvements\<close> has an element.
\<close>

theorem get_improvement_suggestions_fallback_counterexample:
  "json_loads (sample_analyzer (Inr ''not json'')) ''not json''
     = Inl (JSONDecodeError ''Expecting value: line 1 column 1 (char 0)'')
   \<and> dict_get
        (fst (get_improvement_suggestions (sample_analyzer (Inr ''not json''))
           ''Experienced Python developer'' ''Looking for Python developer''
           (fst (analyze_resume (sample_analyzer (Inr ''not json''))
              ''Experienced Python developer'' ''Looking for Python developer''))))
        ''immediate_improvements'' JNull
     = Inr (JArray [JObject [(''section'', JString ''General''),
                             (''current_issue'', JString ''Response parsing issue''),
                             (''suggested_change'', JString ''Manual review recommended'')]])"
  by (simp add: get_improvement_suggestions_def Let_def suggestions_body_def
      sample_analyzer_simps sample_loads_malformed parse_fallback_suggestions_def)

text \<open>
  C9, amended: \<open>get_improvement_suggestions\<close> returns a value in every case. When the
  model call raises, or \<open>json.loads\<close> raises anything but \<open>JSONDecodeError\<close>, the value is
  the record of four empty lists; when \<open>json.loads\<close> raises \<open>JSONDecodeError\<close> it is the
  fallback suggestions; a reply that parses is returned as parsed.
\<close>

theorem get_improvement_suggestions_never_raises:
  "(llm_invoke self (improvement_prompt_format resume_text job_description
        (json_dumps self (ai_analysis result))) = Inl e
    \<longrightarrow> fst (get_improvement_suggestions self resume_text job_description result)
          = empty_suggestions)
   \<and> (llm_invoke self (improvement_prompt_format resume_text job_description
        (json_dumps self (ai_analysis result))) = Inr reply
      \<and> json_loads self reply = Inl (Exception m)
    \<longrightarrow> fst (get_improvement_suggestions self resume_text job_description result)
          = empty_suggestions)
   \<and> (llm_invoke self (improvement_prompt_format resume_text job_description
        (json_dumps self (ai_analysis result))) = Inr reply
      \<and> json_loads self reply = Inl (JSONDecodeError m)
    \<longrightarrow> fst (get_improvement_suggestions self resume_text job_description result)
          = parse_fallback_suggestions reply)
   \<and> (llm_invoke self (improvement_prompt_format resume_text job_description
        (json_dumps self (ai_analysis result))) = Inr reply
      \<and> json_loads self reply = Inr parsed
    \<longrightarrow> fst (get_improvement_suggestions self resume_text job_description result) = parsed)
   \<and> empty_suggestions =
       JObject [(''immediate_improvements'', JArray []), (''keyword_optimization'', JArray []),
                (''formatting_suggestions'', JArray []), (''content_enhancements'', JArray [])]"
proof -
  define prompt where "prompt = improvement_prompt_format resume_text job_description
    (json_dumps self (ai_analysis result))"
  have handled: "fst (get_improvement_suggestions self resume_text job_description result)
      = (case suggestions_body self prompt of Inr suggestions \<Rightarrow> suggestions
         | Inl e \<Rightarrow> empty_suggestions)"
    by (simp add: get_improvement_suggestions_def Let_def prompt_def split: sum.splits)
  have "llm_invoke self prompt = Inl e \<longrightarrow>
      fst (get_improvement_suggestions self resume_text job_description result) = empty_suggestions"
    by (simp add: handled suggestions_body_cases)
  moreover have "llm_invoke self prompt = Inr reply \<and> json_loads self reply = Inl (Exception m)
    \<longrightarrow> fst (get_improvement_suggestions self resume_text job_description result)
          = empty_suggestions"
    by (simp add: handled suggestions_body_cases)
  moreover have "llm_invoke self prompt = Inr reply \<and> json_loads self reply = Inl (JSONDecodeError m)
    \<longrightarrow> fst (get_improvement_suggestions self resume_text job_description result)
          = parse_fallback_suggestions reply"
    by (simp add: handled suggestions_body_cases)
  moreover have "llm_invoke self prompt = Inr reply \<and> json_loads self reply = Inr parsed
    \<longrightarrow> fst (get_improvement_suggestions self resume_text job_description result) = parsed"
    by (simp add: handled suggestions_body_cases)
  ultimately show ?thesis
    unfolding prompt_def by (simp only: empty_suggestions_def simp_thms)
qed

theorem get_improvement_suggestions_never_raises_witness:
  "llm_invoke (sample_analyzer (Inl (Exception ''Connection error.'')))
      (improvement_prompt_format ''Experienced Python developer'' ''Looking for Python developer''
         (json_dumps (sample_analyzer (Inl (Exception ''Connection error.''))) (JObject [])))
     = Inl (Exception ''Connection error.'')
   \<and> fst (get_improvement_suggestions (sample_analyzer (Inl (Exception ''Connection error.'')))
        ''Experienced Python developer'' ''Looking for Python developer''
        \<lparr>error = None, ai_analysis = JObject [], keyword_analysis = None,
         semantic_similarity = 0, analysis_timestamp = ''2024-01-01T00:00:00''\<rparr>)
     = JObject [(''immediate_improvements'', JArray []), (''keyword_optimization'', JArray []),
                (''formatting_suggestions'', JArray []), (''content_enhancements'', JArray [])]"
  using get_improvement_suggestions_never_raises
      [of "sample_analyzer (Inl (Exception ''Connection error.''))"
          "''Experienced Python developer''" "''Looking for Python developer''"
          "\<lparr>error = None, ai_analysis = JObject [], keyword_analysis = None,
            semantic_similarity = 0, analysis_timestamp = ''2024-01-01T00:00:00''\<rparr>"
          "Exception ''Connection error.''"]
  by (simp add: sample_analyzer_simps)

end
